theory Spec2Isabelle
  imports Complex_Main
begin

section \<open>Python values and library results\<close>

text \<open>
  A call into a library either returns a value or raises. The exceptions of
  \<^verbatim>\<open>requests\<close>, \<^verbatim>\<open>yfinance\<close>, \<^verbatim>\<open>pandas\<close> and of the
  interpreter's own lookups (KeyError, IndexError, AttributeError, TypeError) are all
  subclasses of \<^verbatim>\<open>Exception\<close>, which is the class every handler of the program
  catches; \<open>Raises\<close> stands for any of them.
\<close>

datatype 'a outcome = Raises | Returns 'a

fun and_then :: "'a outcome \<Rightarrow> ('a \<Rightarrow> 'b outcome) \<Rightarrow> 'b outcome" where
  "and_then Raises f = Raises"
| "and_then (Returns x) f = f x"

text \<open>
  A Python float: a number, an infinity, or NaN. Only three things are done with a
  float here: it is tested for truth (zero is false, everything else, NaN included,
  is true), it is dropped by \<^verbatim>\<open>dropna\<close> when it is NaN, and it is printed.
\<close>

datatype pyfloat = Num real | PosInf | NegInf | NaN

definition float_truthy :: "pyfloat \<Rightarrow> bool" where
  "float_truthy f = (f \<noteq> Num 0)"

text \<open>
  The values a decoded JSON body is made of. A \<^verbatim>\<open>dict\<close> is an association
  list in insertion order (the first binding of a key is the one looked up); strings
  are lists of 8-bit code points.
\<close>

datatype pyval =
    PyNone
  | PyBool bool
  | PyInt int
  | PyFloat pyfloat
  | PyStr string
  | PyList "pyval list"
  | PyDict "(string \<times> pyval) list"

fun truthy :: "pyval \<Rightarrow> bool" where
  "truthy PyNone = False"
| "truthy (PyBool b) = b"
| "truthy (PyInt i) = (i \<noteq> 0)"
| "truthy (PyFloat f) = float_truthy f"
| "truthy (PyStr s) = (s \<noteq> [])"
| "truthy (PyList xs) = (xs \<noteq> [])"
| "truthy (PyDict kvs) = (kvs \<noteq> [])"

text \<open>\<^verbatim>\<open>a or b\<close>: the first operand when it is true, else the second.\<close>

definition py_or :: "pyval \<Rightarrow> pyval \<Rightarrow> pyval" where
  "py_or a b = (if truthy a then a else b)"

text \<open>\<^verbatim>\<open>d.get(k)\<close> on a dict: the value, or None when the key is missing.\<close>

definition dict_get :: "(string \<times> pyval) list \<Rightarrow> string \<Rightarrow> pyval" where
  "dict_get d k = (case map_of d k of None \<Rightarrow> PyNone | Some v \<Rightarrow> v)"

text \<open>\<^verbatim>\<open>d[k]\<close> on a dict: KeyError when the key is missing.\<close>

definition dict_item :: "(string \<times> pyval) list \<Rightarrow> string \<Rightarrow> pyval outcome" where
  "dict_item d k = (case map_of d k of None \<Rightarrow> Raises | Some v \<Rightarrow> Returns v)"

text \<open>
  \<^verbatim>\<open>x.get(k)\<close> on any value: only a dict has the method, every other value
  raises AttributeError.
\<close>

fun py_get :: "pyval \<Rightarrow> string \<Rightarrow> pyval outcome" where
  "py_get (PyDict d) k = Returns (dict_get d k)"
| "py_get v k = Raises"

text \<open>
  \<^verbatim>\<open>x[0]\<close>: the first element of a list, the first character of a string;
  IndexError when empty, KeyError on a dict decoded from JSON (its keys are strings),
  TypeError on None, a number or a boolean.
\<close>

fun py_index0 :: "pyval \<Rightarrow> pyval outcome" where
  "py_index0 (PyList (x # xs)) = Returns x"
| "py_index0 (PyStr (c # cs)) = Returns (PyStr [c])"
| "py_index0 v = Raises"

section \<open>The external collaborators\<close>

text \<open>
  \<^verbatim>\<open>requests.Response\<close>: \<^verbatim>\<open>raise_for_status()\<close> raises HTTPError on an
  error status, \<^verbatim>\<open>json()\<close> raises on a body that is not JSON.
\<close>

record response =
  raise_for_status :: "unit outcome"
  json :: "pyval outcome"

text \<open>
  \<^verbatim>\<open>Ticker.fast_info\<close> is a dict-like object on which the program performs three
  operations: its truth value, \<^verbatim>\<open>"last_price" in fi\<close> and
  \<^verbatim>\<open>fi["last_price"]\<close>. The item is a float or None, and reading it may raise
  (the object fetches lazily).
\<close>

record fast_info_obj =
  fi_truthy :: bool
  fi_contains_last_price :: bool
  fi_last_price :: "pyfloat option outcome"

text \<open>
  A price history frame is represented by its \<^verbatim>\<open>Close\<close> column, one float per
  row, NaN for a missing close. \<^verbatim>\<open>frame.empty\<close> holds when there is no row.
\<close>

type_synonym frame = "pyfloat list"

record ticker_obj =
  fast_info :: "fast_info_obj outcome"
  history_1d_1m :: "frame outcome"
  history_1d :: "frame outcome"

text \<open>
  The environment of one run: the answer of the search endpoint to a request (URL and
  query parameters), the \<^verbatim>\<open>yfinance\<close> handle of a ticker, the two float
  formatters of the interpreter (\<^verbatim>\<open>float.__repr__\<close> on a finite float and
  \<^verbatim>\<open>format(price, ",.4f")\<close>), and the console of \<^verbatim>\<open>rich\<close> on a
  table of one row, given by the three cells of the row: \<^verbatim>\<open>table.add_row\<close>
  raises NotRenderableError on a cell that is neither a string nor None, and
  \<^verbatim>\<open>console.print\<close> raises MarkupError on a cell whose text is malformed
  console markup (a closing tag such as \<^verbatim>\<open>[/x]\<close> with no opening tag).
\<close>

record env =
  requests_get :: "string \<Rightarrow> (string \<times> pyval) list \<Rightarrow> response outcome"
  yf_Ticker :: "pyval \<Rightarrow> ticker_obj outcome"
  float_repr :: "real \<Rightarrow> string"
  format_4f :: "pyfloat \<Rightarrow> string"
  console_print :: "pyval \<Rightarrow> pyval \<Rightarrow> string \<Rightarrow> unit outcome"

text \<open>
  What a run does to the outside, in order. Each event is a call, recorded whether the
  call returns or raises; \<open>PrintTable\<close> is the row handed to the console.
\<close>

datatype event =
    HttpGet string "(string \<times> pyval) list"
  | NewTicker pyval
  | FastInfo
  | History1m
  | History1d
  | Echo string
  | PrintTable pyval pyval string

section \<open>Price fetcher\<close>

text \<open>
  The inner \<^verbatim>\<open>try\<close> of \<^verbatim>\<open>get_current_price\<close>: the price of
  \<^verbatim>\<open>fast_info\<close> when the condition holds, \<open>None\<close> when it does not or when
  anything raised (\<^verbatim>\<open>except Exception: pass\<close>).
\<close>

definition fast_info_price :: "ticker_obj \<Rightarrow> pyfloat option" where
  "fast_info_price t =
     (case fast_info t of
        Raises \<Rightarrow> None
      | Returns fi \<Rightarrow>
          if fi_truthy fi \<and> fi_contains_last_price fi then
            (case fi_last_price fi of
               Raises \<Rightarrow> None
             | Returns None \<Rightarrow> None
             | Returns (Some p) \<Rightarrow> if float_truthy p then Some p else None)
          else None)"

text \<open>\<^verbatim>\<open>Series.dropna()\<close> and \<^verbatim>\<open>.iloc[-1]\<close> (IndexError on an empty series).\<close>

definition dropna :: "frame \<Rightarrow> pyfloat list" where
  "dropna closes = filter (\<lambda>c. c \<noteq> NaN) closes"

definition iloc_last :: "pyfloat list \<Rightarrow> pyfloat outcome" where
  "iloc_last xs = (if xs = [] then Raises else Returns (last xs))"

text \<open>
  The body of the outer \<^verbatim>\<open>try\<close>: \<open>Returns (Some p)\<close> is \<^verbatim>\<open>return p\<close>,
  \<open>Returns None\<close> is reaching the end of the block, \<open>Raises\<close> is an exception
  leaving it.
\<close>

definition get_current_price_try :: "env \<Rightarrow> pyval \<Rightarrow> event list \<times> pyfloat option outcome" where
  "get_current_price_try e ticker =
     (case yf_Ticker e ticker of
        Raises \<Rightarrow> ([NewTicker ticker], Raises)
      | Returns t \<Rightarrow>
          (case fast_info_price t of
             Some p \<Rightarrow> ([NewTicker ticker, FastInfo], Returns (Some p))
           | None \<Rightarrow>
               (case history_1d_1m t of
                  Raises \<Rightarrow> ([NewTicker ticker, FastInfo, History1m], Raises)
                | Returns hist \<Rightarrow>
                    if hist \<noteq> [] then
                      ([NewTicker ticker, FastInfo, History1m],
                       and_then (iloc_last (dropna hist)) (\<lambda>p. Returns (Some p)))
                    else
                      (case history_1d t of
                         Raises \<Rightarrow> ([NewTicker ticker, FastInfo, History1m, History1d], Raises)
                       | Returns hist \<Rightarrow>
                           if hist \<noteq> [] then
                             ([NewTicker ticker, FastInfo, History1m, History1d],
                              and_then (iloc_last (dropna hist)) (\<lambda>p. Returns (Some p)))
                           else ([NewTicker ticker, FastInfo, History1m, History1d],
                                 Returns None)))))"

text \<open>The outer handler: \<^verbatim>\<open>except Exception: pass\<close>, then \<^verbatim>\<open>return None\<close>.\<close>

definition get_current_price :: "env \<Rightarrow> pyval \<Rightarrow> event list \<times> pyfloat option" where
  "get_current_price e ticker =
     (case get_current_price_try e ticker of
        (tr, Raises) \<Rightarrow> (tr, None)
      | (tr, Returns r) \<Rightarrow> (tr, r))"

section \<open>Resolver\<close>

definition YAHOO_SEARCH_URL :: string where
  "YAHOO_SEARCH_URL = ''https://query1.finance.yahoo.com/v1/finance/search''"

text \<open>
  The dict built from the first candidate \<^verbatim>\<open>q\<close>. Every \<^verbatim>\<open>q.get\<close>
  raises when \<^verbatim>\<open>q\<close> is not a dict; the operands of \<^verbatim>\<open>or\<close> are
  evaluated from the left, the next one only when the previous is false.
\<close>

definition match_of_quote :: "pyval \<Rightarrow> (string \<times> pyval) list outcome" where
  "match_of_quote q =
     and_then (py_get q ''symbol'') (\<lambda>symbol.
     and_then (and_then (py_get q ''shortname'') (\<lambda>shortname.
                 if truthy shortname then Returns shortname
                 else and_then (py_get q ''longname'') (\<lambda>longname.
                        if truthy longname then Returns longname
                        else py_get q ''symbol''))) (\<lambda>display.
     and_then (py_get q ''quoteType'') (\<lambda>quote_type.
     and_then (py_get q ''exchange'') (\<lambda>exchange.
     and_then (py_get q ''score'') (\<lambda>score.
       Returns [(''symbol'', symbol), (''name'', display), (''type'', quote_type),
                (''exchange'', exchange), (''score'', score)])))))"

definition search_params :: "pyval \<Rightarrow> (string \<times> pyval) list" where
  "search_params name =
     [(''q'', name), (''quotesCount'', PyInt 1), (''newsCount'', PyInt 0),
      (''listsCount'', PyInt 0)]"

text \<open>The request of line 33 (the timeout is not modelled).\<close>

abbreviation search_request :: "env \<Rightarrow> pyval \<Rightarrow> response outcome" where
  "search_request e name \<equiv> requests_get e YAHOO_SEARCH_URL (search_params name)"

text \<open>The body of the \<^verbatim>\<open>try\<close> of \<^verbatim>\<open>lookup_ticker_by_name\<close>.\<close>

definition lookup_ticker_by_name_try :: "env \<Rightarrow> pyval \<Rightarrow> (string \<times> pyval) list option outcome" where
  "lookup_ticker_by_name_try e name =
     and_then (search_request e name) (\<lambda>resp.
     and_then (raise_for_status resp) (\<lambda>ok.
     and_then (json resp) (\<lambda>data.
     and_then (py_get data ''quotes'') (\<lambda>found.
       let quotes = py_or found (PyList []) in
       if \<not> truthy quotes then Returns None
       else and_then (py_index0 quotes) (\<lambda>q.
            and_then (match_of_quote q) (\<lambda>m. Returns (Some m)))))))"

text \<open>The handler: \<^verbatim>\<open>except Exception: return None\<close>.\<close>

definition lookup_ticker_by_name :: "env \<Rightarrow> pyval \<Rightarrow> event list \<times> (string \<times> pyval) list option" where
  "lookup_ticker_by_name e name =
     ([HttpGet YAHOO_SEARCH_URL (search_params name)],
      case lookup_ticker_by_name_try e name of Raises \<Rightarrow> None | Returns r \<Rightarrow> r)"

section \<open>JSON output\<close>

text \<open>
  \<^verbatim>\<open>json.dumps(obj, indent=2)\<close> with the defaults of the standard encoder:
  ASCII-only strings, \<^verbatim>\<open>","\<close> between items and \<^verbatim>\<open>": "\<close> after a key,
  every item of a non-empty container on a line of its own, indented by two spaces
  per nesting level.
\<close>

definition hex_digit :: "nat \<Rightarrow> char" where
  "hex_digit d = (if d < 10 then char_of (48 + d) else char_of (87 + d))"

fun nat_repr :: "nat \<Rightarrow> string" where
  "nat_repr n = (if n < 10 then [hex_digit n] else nat_repr (n div 10) @ [hex_digit (n mod 10)])"

declare nat_repr.simps [simp del]

definition int_repr :: "int \<Rightarrow> string" where
  "int_repr i = (if i < 0 then ''-'' @ nat_repr (nat (- i)) else nat_repr (nat i))"

definition json_escape :: "char \<Rightarrow> string" where
  "json_escape c =
     (if c = CHR 0x22 then [CHR 0x5C, CHR 0x22]
      else if c = CHR 0x5C then [CHR 0x5C, CHR 0x5C]
      else if c = CHR 0x0A then [CHR 0x5C, CHR ''n'']
      else if c = CHR 0x0D then [CHR 0x5C, CHR ''r'']
      else if c = CHR 0x09 then [CHR 0x5C, CHR ''t'']
      else if c = CHR 0x08 then [CHR 0x5C, CHR ''b'']
      else if c = CHR 0x0C then [CHR 0x5C, CHR ''f'']
      else if 32 \<le> (of_char c :: nat) \<and> (of_char c :: nat) \<le> 126 then [c]
      else [CHR 0x5C, CHR ''u'', CHR ''0'', CHR ''0'',
            hex_digit ((of_char c :: nat) div 16), hex_digit ((of_char c :: nat) mod 16)])"

definition json_str :: "string \<Rightarrow> string" where
  "json_str s = [CHR 0x22] @ concat (map json_escape s) @ [CHR 0x22]"

definition json_float :: "(real \<Rightarrow> string) \<Rightarrow> pyfloat \<Rightarrow> string" where
  "json_float fr f =
     (case f of Num r \<Rightarrow> fr r | PosInf \<Rightarrow> ''Infinity'' | NegInf \<Rightarrow> ''-Infinity''
      | NaN \<Rightarrow> ''NaN'')"

definition newline_indent :: "nat \<Rightarrow> string" where
  "newline_indent level = CHR 0x0A # replicate (2 * level) CHR '' ''"

fun join :: "string \<Rightarrow> string list \<Rightarrow> string" where
  "join sep [] = []"
| "join sep [x] = x"
| "join sep (x # y # ys) = x @ sep @ join sep (y # ys)"

fun json_encode :: "(real \<Rightarrow> string) \<Rightarrow> nat \<Rightarrow> pyval \<Rightarrow> string" where
  "json_encode fr level PyNone = ''null''"
| "json_encode fr level (PyBool b) = (if b then ''true'' else ''false'')"
| "json_encode fr level (PyInt i) = int_repr i"
| "json_encode fr level (PyFloat f) = json_float fr f"
| "json_encode fr level (PyStr s) = json_str s"
| "json_encode fr level (PyList xs) =
     (if xs = [] then ''[]''
      else ''['' @ newline_indent (level + 1)
           @ join ('','' @ newline_indent (level + 1)) (map (json_encode fr (level + 1)) xs)
           @ newline_indent level @ '']'')"
| "json_encode fr level (PyDict kvs) =
     (if kvs = [] then ''{}''
      else ''{'' @ newline_indent (level + 1)
           @ join ('','' @ newline_indent (level + 1))
               (map (\<lambda>kv. json_str (fst kv) @ '': '' @ json_encode fr (level + 1) (snd kv)) kvs)
           @ newline_indent level @ ''}'')"

definition json_dumps_indent2 :: "env \<Rightarrow> pyval \<Rightarrow> string" where
  "json_dumps_indent2 e obj = json_encode (float_repr e) 0 obj"

section \<open>Orchestration\<close>

text \<open>
  A run of the command ends by \<^verbatim>\<open>typer.Exit\<close> with a code, by returning (exit
  code 0), or by an exception nobody catches.
\<close>

datatype status = Exit nat | Uncaught

text \<open>An option of the command line: absent (None) or the text that was given.\<close>

definition cli_value :: "string option \<Rightarrow> pyval" where
  "cli_value opt = (case opt of None \<Rightarrow> PyNone | Some s \<Rightarrow> PyStr s)"

text \<open>How an optional string is rendered inside an f-string.\<close>

definition fstring_value :: "string option \<Rightarrow> string" where
  "fstring_value opt = (case opt of None \<Rightarrow> ''None'' | Some s \<Rightarrow> s)"

definition no_results_message :: "string option \<Rightarrow> string" where
  "no_results_message name =
     ''No results for name: '' @ [CHR 0x22] @ fstring_value name @ [CHR 0x22] @ ''.''"

definition usage_message :: string where
  "usage_message = ''Provide --ticker or --name (see --help).''"

text \<open>The dict of lines 115 to 120.\<close>

definition payload :: "pyval \<Rightarrow> pyval \<Rightarrow> pyfloat option \<Rightarrow> (string \<times> pyval) list" where
  "payload ticker asset_name price =
     [(''ticker'', ticker),
      (''name'', asset_name),
      (''price'', case price of None \<Rightarrow> PyNone | Some p \<Rightarrow> PyFloat p),
      (''success'', PyBool (price \<noteq> None))]"

text \<open>
  Lines 110 to 112. \<^verbatim>\<open>resolved["name"]\<close> is a subscript, which raises KeyError
  on a missing key.
\<close>

definition asset_name_of :: "(string \<times> pyval) list option \<Rightarrow> pyval \<Rightarrow> pyval \<Rightarrow> pyval outcome" where
  "asset_name_of resolved ticker name =
     (case resolved of
        None \<Rightarrow> Returns (if \<not> truthy name then ticker else name)
      | Some d \<Rightarrow>
          if d \<noteq> [] \<and> truthy (dict_get d ''name'') then dict_item d ''name''
          else Returns (if \<not> truthy name then ticker else name))"

text \<open>
  Lines 114 to 134: the JSON branch echoes the encoded payload and exits with the
  default code; the table branch hands one row to the console and returns, unless
  the console raises on the row: no handler is around lines 124 to 134, so the
  exception leaves the command.
\<close>

definition present :: "env \<Rightarrow> bool \<Rightarrow> pyval \<Rightarrow> pyval \<Rightarrow> pyfloat option \<Rightarrow> event list \<times> status" where
  "present e json_out ticker asset_name price =
     (if json_out then
        ([Echo (json_dumps_indent2 e (PyDict (payload ticker asset_name price)))], Exit 0)
      else
        ([PrintTable asset_name (py_or ticker (PyStr ''-''))
            (case price of None \<Rightarrow> ''[red]N/A[/red]'' | Some p \<Rightarrow> format_4f e p)],
         case console_print e asset_name (py_or ticker (PyStr ''-''))
                (case price of None \<Rightarrow> ''[red]N/A[/red]'' | Some p \<Rightarrow> format_4f e p) of
           Raises \<Rightarrow> Uncaught
         | Returns done \<Rightarrow> Exit 0))"

text \<open>Lines 109 to 134, after the ticker is known.\<close>

definition price_and_present ::
  "env \<Rightarrow> bool \<Rightarrow> (string \<times> pyval) list option \<Rightarrow> pyval \<Rightarrow> pyval \<Rightarrow> event list \<times> status" where
  "price_and_present e json_out resolved ticker name =
     (case get_current_price e ticker of
        (tr, price) \<Rightarrow>
          (case asset_name_of resolved ticker name of
             Raises \<Rightarrow> (tr, Uncaught)
           | Returns asset_name \<Rightarrow>
               (case present e json_out ticker asset_name price of
                  (out, st) \<Rightarrow> (tr @ out, st))))"

definition search_command :: "env \<Rightarrow> string option \<Rightarrow> string option \<Rightarrow> bool \<Rightarrow> event list \<times> status" where
  "search_command e ticker name json_out =
     (if \<not> truthy (cli_value ticker) \<and> \<not> truthy (cli_value name) then
        ([Echo usage_message], Exit 2)
      else if truthy (cli_value name) \<and> \<not> truthy (cli_value ticker) then
        (case lookup_ticker_by_name e (cli_value name) of
           (tr, resolved) \<Rightarrow>
             (case resolved of
                None \<Rightarrow> (tr @ [Echo (no_results_message name)], Exit 1)
              | Some d \<Rightarrow>
                  if d = [] \<or> \<not> truthy (dict_get d ''symbol'') then
                    (tr @ [Echo (no_results_message name)], Exit 1)
                  else
                    (case dict_item d ''symbol'' of
                       Raises \<Rightarrow> (tr, Uncaught)
                     | Returns symbol \<Rightarrow>
                         (case price_and_present e json_out (Some d) symbol (cli_value name) of
                            (tr2, st) \<Rightarrow> (tr @ tr2, st)))))
      else
        price_and_present e json_out None (cli_value ticker) (cli_value name))"

section \<open>Sample inputs\<close>

text \<open>Concrete handles and environments on which the properties below are evaluated.\<close>

definition sample_handle :: "fast_info_obj outcome \<Rightarrow> frame outcome \<Rightarrow> frame outcome \<Rightarrow> ticker_obj" where
  "sample_handle f m d = \<lparr>fast_info = f, history_1d_1m = m, history_1d = d\<rparr>"

text \<open>
  A console that raises on the cells on which \<^verbatim>\<open>rich\<close> is known to raise
  among those used below (a cell that is neither a string nor None, and the text
  \<^verbatim>\<open>[/x]\<close>), and prints every other row.
\<close>

fun renderable :: "pyval \<Rightarrow> bool" where
  "renderable (PyStr s) = (s \<noteq> ''[/x]'')"
| "renderable PyNone = True"
| "renderable v = False"

definition sample_console :: "pyval \<Rightarrow> pyval \<Rightarrow> string \<Rightarrow> unit outcome" where
  "sample_console name ticker cell =
     (if renderable name \<and> renderable ticker \<and> cell \<noteq> ''[/x]'' then Returns () else Raises)"

definition sample_env :: "response outcome \<Rightarrow> ticker_obj outcome \<Rightarrow> env" where
  "sample_env r t = \<lparr>requests_get = (\<lambda>url params. r), yf_Ticker = (\<lambda>ticker. t),
            float_repr = (\<lambda>x. ''150.1234''), format_4f = (\<lambda>f. ''150.1234''),
            console_print = sample_console\<rparr>"

definition fast_present :: "fast_info_obj" where
  "fast_present = \<lparr>fi_truthy = True, fi_contains_last_price = True,
                    fi_last_price = Returns (Some (Num 7))\<rparr>"

definition sample_response :: "pyval \<Rightarrow> response" where
  "sample_response body = \<lparr>raise_for_status = Returns (), json = Returns body\<rparr>"

definition apple_quote :: "(string \<times> pyval) list" where
  "apple_quote = [(''symbol'', PyStr ''AAPL''), (''longname'', PyStr ''Apple Inc.''),
                  (''quoteType'', PyStr ''EQUITY''), (''exchange'', PyStr ''NMS''),
                  (''score'', PyInt 31292)]"

definition apple_body :: pyval where
  "apple_body = PyDict [(''quotes'', PyList [PyDict apple_quote]), (''news'', PyList [])]"

definition priced_handle :: ticker_obj where
  "priced_handle = sample_handle (Returns fast_present) Raises Raises"

definition unpriced_handle :: ticker_obj where
  "unpriced_handle = sample_handle Raises (Returns []) (Returns [])"

definition no_match_body :: pyval where
  "no_match_body = PyDict [(''quotes'', PyList [])]"

definition no_symbol_body :: pyval where
  "no_symbol_body = PyDict [(''quotes'', PyList [PyDict [(''shortname'', PyStr ''Apple Inc.'')]])]"

definition aapl_handle :: ticker_obj where
  "aapl_handle =
     sample_handle (Returns \<lparr>fi_truthy = True, fi_contains_last_price = True,
                              fi_last_price = Returns (Some (Num 150.1234))\<rparr>) Raises Raises"

definition aapl_pretty :: string where
  \<open>aapl_pretty =
     ''{'' @ [CHR 0x0A] @
     ''  "ticker": "AAPL",'' @ [CHR 0x0A] @
     ''  "name": "AAPL",'' @ [CHR 0x0A] @
     ''  "price": 150.1234,'' @ [CHR 0x0A] @
     ''  "success": true'' @ [CHR 0x0A] @
     ''}''\<close>

definition aapl_compact :: string where
  \<open>aapl_compact = ''{"ticker": "AAPL", "name": "AAPL", "price": 150.1234, "success": true}''\<close>

section \<open>Properties of the price fetcher\<close>

text \<open>
  The first step yields a price exactly when \<^verbatim>\<open>fast_info\<close> can be read, is true,
  has the key, and the item can be read and is a non-zero float.
\<close>

lemma fast_info_price_Some_iff:
  "fast_info_price t = Some p \<longleftrightarrow>
     (\<exists>fi. fast_info t = Returns fi \<and> fi_truthy fi \<and> fi_contains_last_price fi
        \<and> fi_last_price fi = Returns (Some p) \<and> p \<noteq> Num 0)"
  by (auto simp: fast_info_price_def float_truthy_def split: outcome.splits option.splits if_splits)

lemma price_fast:
  "yf_Ticker e ticker = Returns t \<Longrightarrow> fast_info_price t = Some p \<Longrightarrow>
   get_current_price e ticker = ([NewTicker ticker, FastInfo], Some p)"
  by (simp add: get_current_price_def get_current_price_try_def)

lemma price_minute:
  "yf_Ticker e ticker = Returns t \<Longrightarrow> fast_info_price t = None \<Longrightarrow>
   history_1d_1m t = Returns h \<Longrightarrow> dropna h \<noteq> [] \<Longrightarrow>
   get_current_price e ticker = ([NewTicker ticker, FastInfo, History1m], Some (last (dropna h)))"
  by (auto simp: get_current_price_def get_current_price_try_def iloc_last_def dropna_def)

lemma price_daily:
  "yf_Ticker e ticker = Returns t \<Longrightarrow> fast_info_price t = None \<Longrightarrow>
   history_1d_1m t = Returns [] \<Longrightarrow> history_1d t = Returns d \<Longrightarrow> dropna d \<noteq> [] \<Longrightarrow>
   get_current_price e ticker =
     ([NewTicker ticker, FastInfo, History1m, History1d], Some (last (dropna d)))"
  by (auto simp: get_current_price_def get_current_price_try_def iloc_last_def dropna_def)

lemma price_trace_cases:
  "fst (get_current_price e ticker) = [NewTicker ticker] \<and> yf_Ticker e ticker = Raises
   \<or> (\<exists>t. yf_Ticker e ticker = Returns t \<and>
        (fst (get_current_price e ticker) = [NewTicker ticker, FastInfo] \<and> fast_info_price t \<noteq> None
         \<or> fst (get_current_price e ticker) = [NewTicker ticker, FastInfo, History1m]
             \<and> fast_info_price t = None \<and> history_1d_1m t \<noteq> Returns []
         \<or> fst (get_current_price e ticker) = [NewTicker ticker, FastInfo, History1m, History1d]
             \<and> fast_info_price t = None \<and> history_1d_1m t = Returns []))"
  by (auto simp: get_current_price_def get_current_price_try_def split: outcome.splits option.splits)


text \<open>
  C1. The first step yields nothing, the minute history comes back with one row whose
  close is missing, and the daily history holds the close 1. The claim has the fetcher
  go on to the daily history and return 1. The code tests \<^verbatim>\<open>hist.empty\<close>
  only, reads the last element of the series that \<^verbatim>\<open>dropna\<close> left empty, and
  the IndexError reaches the outer handler: the fetcher returns None after the second
  step and never requests the daily history.
\<close>

theorem all_missing_minute_ends_chain:
  "dropna [NaN] = [] \<and> dropna [Num 1] = [Num 1]
   \<and> get_current_price
        (sample_env Raises (Returns (sample_handle Raises (Returns [NaN]) (Returns [Num 1]))))
        (PyStr ''AAPL'') = ([NewTicker (PyStr ''AAPL''), FastInfo, History1m], None)"
  by (simp add: get_current_price_def get_current_price_try_def sample_env_def sample_handle_def
        fast_info_price_def dropna_def iloc_last_def)

text \<open>
  C2. The minute history request raises while the daily history holds a close: the
  fetcher returns None after the second step and never requests the daily history,
  although an exception in the first step is passed over by a handler of its own.
\<close>

theorem minute_history_raises_ends_chain:
  "get_current_price
     (sample_env Raises (Returns (sample_handle Raises Raises (Returns [Num 1]))))
     (PyStr ''AAPL'') = ([NewTicker (PyStr ''AAPL''), FastInfo, History1m], None)"
  by (simp add: get_current_price_def get_current_price_try_def sample_env_def sample_handle_def
        fast_info_price_def)


section \<open>Properties of the resolver\<close>

lemma and_then_Returns_iff:
  "and_then m f = Returns y \<longleftrightarrow> (\<exists>x. m = Returns x \<and> f x = Returns y)"
  by (cases m) simp_all

lemma lookup_trace:
  "fst (lookup_ticker_by_name e name) = [HttpGet YAHOO_SEARCH_URL (search_params name)]"
  by (simp add: lookup_ticker_by_name_def)

lemma match_of_quote_dict:
  "match_of_quote (PyDict q) =
     Returns [(''symbol'', dict_get q ''symbol''),
              (''name'', py_or (dict_get q ''shortname'')
                           (py_or (dict_get q ''longname'') (dict_get q ''symbol''))),
              (''type'', dict_get q ''quoteType''),
              (''exchange'', dict_get q ''exchange''),
              (''score'', dict_get q ''score'')]"
  by (simp add: match_of_quote_def py_or_def)

lemma match_of_quote_other:
  "(\<forall>q. v \<noteq> PyDict q) \<Longrightarrow> match_of_quote v = Raises"
  by (cases v) (simp_all add: match_of_quote_def)

lemma py_get_other: "(\<forall>d. v \<noteq> PyDict d) \<Longrightarrow> py_get v k = Raises"
  by (cases v) simp_all

lemma lookup_success:
  assumes "requests_get e YAHOO_SEARCH_URL (search_params name) = Returns resp"
    and "raise_for_status resp = Returns ok"
    and "json resp = Returns (PyDict d)"
    and "dict_get d ''quotes'' = PyList (PyDict q # rest)"
  shows "snd (lookup_ticker_by_name e name) =
     Some [(''symbol'', dict_get q ''symbol''),
              (''name'', py_or (dict_get q ''shortname'')
                           (py_or (dict_get q ''longname'') (dict_get q ''symbol''))),
              (''type'', dict_get q ''quoteType''),
              (''exchange'', dict_get q ''exchange''),
              (''score'', dict_get q ''score'')]"
  using assms
  by (simp add: lookup_ticker_by_name_def lookup_ticker_by_name_try_def py_or_def
        match_of_quote_dict)

lemma lookup_Some_shape:
  assumes "snd (lookup_ticker_by_name e name) = Some m"
  shows "\<exists>q. m = [(''symbol'', dict_get q ''symbol''),
              (''name'', py_or (dict_get q ''shortname'')
                           (py_or (dict_get q ''longname'') (dict_get q ''symbol''))),
              (''type'', dict_get q ''quoteType''),
              (''exchange'', dict_get q ''exchange''),
              (''score'', dict_get q ''score'')]"
proof -
  from assms obtain r where r: "lookup_ticker_by_name_try e name = Returns (Some m)"
    by (auto simp: lookup_ticker_by_name_def split: outcome.splits)
  then obtain qv where q: "match_of_quote qv = Returns m"
    by (auto simp: lookup_ticker_by_name_try_def Let_def and_then_Returns_iff
          split: if_splits)
  then obtain q where "qv = PyDict q"
    using match_of_quote_other [of qv] by auto
  with q show ?thesis by (auto simp: match_of_quote_dict)
qed


lemma lookup_malformed_quotes:
  assumes "requests_get e YAHOO_SEARCH_URL (search_params name) = Returns resp"
    and "raise_for_status resp = Returns ok"
    and "json resp = Returns (PyDict d)"
    and "\<forall>q rest. dict_get d ''quotes'' \<noteq> PyList (PyDict q # rest)"
  shows "snd (lookup_ticker_by_name e name) = None"
proof (cases "snd (lookup_ticker_by_name e name)")
  case None
  then show ?thesis .
next
  case (Some m)
  then have "lookup_ticker_by_name_try e name = Returns (Some m)"
    by (auto simp: lookup_ticker_by_name_def split: outcome.splits)
  with assms(1-3) obtain qv where t: "truthy (dict_get d ''quotes'')"
      and i: "py_index0 (dict_get d ''quotes'') = Returns qv"
      and m: "match_of_quote qv = Returns m"
    by (auto simp: lookup_ticker_by_name_try_def Let_def and_then_Returns_iff py_or_def
          split: if_splits)
  from m obtain q where q: "qv = PyDict q"
    using match_of_quote_other [of qv] by auto
  from i q have "\<exists>rest. dict_get d ''quotes'' = PyList (PyDict q # rest)"
    by (cases "dict_get d ''quotes''" rule: py_index0.cases) auto
  with assms(4) show ?thesis by blast
qed

text \<open>
  C7. The resolver makes one request. It returns None when the request raises (transport
  error), when \<^verbatim>\<open>raise_for_status\<close> raises (error status), when the body is
  not JSON, is not a JSON object, or its \<^verbatim>\<open>quotes\<close> is not a list starting
  with an object (malformed body), and when \<^verbatim>\<open>quotes\<close> is missing, null or
  empty (no match): one and the same None in every case, and never an exception, the
  result being an optional dict. On success it returns the first candidate's symbol,
  with the name \<^verbatim>\<open>shortname or longname or symbol\<close>.
\<close>

theorem resolver_outcomes:
  "fst (lookup_ticker_by_name e name) = [HttpGet YAHOO_SEARCH_URL (search_params name)]
   \<and> (search_request e name = Raises \<longrightarrow> snd (lookup_ticker_by_name e name) = None)
   \<and> (search_request e name = Returns resp \<and> raise_for_status resp = Raises
        \<longrightarrow> snd (lookup_ticker_by_name e name) = None)
   \<and> (search_request e name = Returns resp \<and> raise_for_status resp = Returns ok
        \<and> json resp = Raises
        \<longrightarrow> snd (lookup_ticker_by_name e name) = None)
   \<and> (search_request e name = Returns resp \<and> raise_for_status resp = Returns ok
        \<and> json resp = Returns data \<and> (\<forall>d. data \<noteq> PyDict d)
        \<longrightarrow> snd (lookup_ticker_by_name e name) = None)
   \<and> (search_request e name = Returns resp \<and> raise_for_status resp = Returns ok
        \<and> json resp = Returns (PyDict d) \<and> \<not> truthy (dict_get d ''quotes'')
        \<longrightarrow> snd (lookup_ticker_by_name e name) = None)
   \<and> (search_request e name = Returns resp \<and> raise_for_status resp = Returns ok
        \<and> json resp = Returns (PyDict d)
        \<and> (\<forall>c rest. dict_get d ''quotes'' \<noteq> PyList (PyDict c # rest))
        \<longrightarrow> snd (lookup_ticker_by_name e name) = None)
   \<and> (search_request e name = Returns resp \<and> raise_for_status resp = Returns ok
        \<and> json resp = Returns (PyDict d)
        \<and> dict_get d ''quotes'' = PyList (PyDict q # others)
        \<longrightarrow> snd (lookup_ticker_by_name e name) =
              Some [(''symbol'', dict_get q ''symbol''),
                    (''name'', py_or (dict_get q ''shortname'')
                                 (py_or (dict_get q ''longname'') (dict_get q ''symbol''))),
                    (''type'', dict_get q ''quoteType''),
                    (''exchange'', dict_get q ''exchange''),
                    (''score'', dict_get q ''score'')])"
proof -
  let ?r = "snd (lookup_ticker_by_name e name)"
  have a: "requests_get e YAHOO_SEARCH_URL (search_params name) = Raises \<Longrightarrow> ?r = None"
    by (simp add: lookup_ticker_by_name_def lookup_ticker_by_name_try_def)
  have b: "requests_get e YAHOO_SEARCH_URL (search_params name) = Returns resp \<Longrightarrow>
           raise_for_status resp = Raises \<Longrightarrow> ?r = None"
    by (simp add: lookup_ticker_by_name_def lookup_ticker_by_name_try_def)
  have c: "requests_get e YAHOO_SEARCH_URL (search_params name) = Returns resp \<Longrightarrow>
           raise_for_status resp = Returns ok \<Longrightarrow> json resp = Raises \<Longrightarrow> ?r = None"
    by (simp add: lookup_ticker_by_name_def lookup_ticker_by_name_try_def)
  have d: "requests_get e YAHOO_SEARCH_URL (search_params name) = Returns resp \<Longrightarrow>
           raise_for_status resp = Returns ok \<Longrightarrow> json resp = Returns data \<Longrightarrow>
           \<forall>d. data \<noteq> PyDict d \<Longrightarrow> ?r = None"
    by (simp add: lookup_ticker_by_name_def lookup_ticker_by_name_try_def py_get_other)
  have f: "requests_get e YAHOO_SEARCH_URL (search_params name) = Returns resp \<Longrightarrow>
           raise_for_status resp = Returns ok \<Longrightarrow> json resp = Returns (PyDict d) \<Longrightarrow>
           \<not> truthy (dict_get d ''quotes'') \<Longrightarrow> ?r = None"
    by (simp add: lookup_ticker_by_name_def lookup_ticker_by_name_try_def py_or_def)
  note g = lookup_malformed_quotes [of e name resp ok d]
  note h = lookup_success [of e name resp ok d q others]
  from a b c d f g h show ?thesis
    unfolding lookup_trace by blast
qed

theorem resolver_outcomes_witness:
  "snd (lookup_ticker_by_name (sample_env Raises Raises) (PyStr ''Apple'')) = None
   \<and> snd (lookup_ticker_by_name
            (sample_env (Returns (sample_response (PyDict [(''quotes'', PyList [])]))) Raises)
            (PyStr ''Apple'')) = None
   \<and> snd (lookup_ticker_by_name (sample_env (Returns (sample_response apple_body)) Raises)
            (PyStr ''Apple'')) =
       Some [(''symbol'', PyStr ''AAPL''), (''name'', PyStr ''Apple Inc.''),
             (''type'', PyStr ''EQUITY''), (''exchange'', PyStr ''NMS''),
             (''score'', PyInt 31292)]"
proof -
  have a: "snd (lookup_ticker_by_name (sample_env Raises Raises) (PyStr ''Apple'')) = None"
    using resolver_outcomes [of "sample_env Raises Raises" "PyStr ''Apple''"]
    by (simp add: sample_env_def)
  have b: "snd (lookup_ticker_by_name
            (sample_env (Returns (sample_response (PyDict [(''quotes'', PyList [])]))) Raises)
            (PyStr ''Apple'')) = None"
    using resolver_outcomes [of
        "sample_env (Returns (sample_response (PyDict [(''quotes'', PyList [])]))) Raises"
        "PyStr ''Apple''" "sample_response (PyDict [(''quotes'', PyList [])])" "()"
        "PyNone" "[(''quotes'', PyList [])]"]
    by (simp add: sample_env_def sample_response_def dict_get_def)
  have c: "snd (lookup_ticker_by_name (sample_env (Returns (sample_response apple_body)) Raises)
            (PyStr ''Apple'')) =
       Some [(''symbol'', PyStr ''AAPL''), (''name'', PyStr ''Apple Inc.''),
             (''type'', PyStr ''EQUITY''), (''exchange'', PyStr ''NMS''),
             (''score'', PyInt 31292)]"
    using resolver_outcomes [of "sample_env (Returns (sample_response apple_body)) Raises"
        "PyStr ''Apple''" "sample_response apple_body" "()" PyNone
        "[(''quotes'', PyList [PyDict apple_quote]), (''news'', PyList [])]" apple_quote "[]"]
    by (simp add: sample_env_def sample_response_def apple_body_def apple_quote_def
          dict_get_def py_or_def)
  from a b c show ?thesis by blast
qed

section \<open>Properties of the orchestration\<close>

lemma falsy_cli_value: "\<not> truthy (cli_value opt) \<longleftrightarrow> opt = None \<or> opt = Some []"
  by (cases opt) (simp_all add: cli_value_def)

lemma dict_item_truthy: "truthy (dict_get d k) \<Longrightarrow> dict_item d k = Returns (dict_get d k)"
  by (cases "map_of d k") (simp_all add: dict_get_def dict_item_def)

lemma present_json_Exit: "snd (present e True tk a price) = Exit 0"
  by (simp add: present_def)

lemma price_and_present_unresolved:
  "price_and_present e j None tk name =
     (fst (get_current_price e tk)
        @ fst (present e j tk (if \<not> truthy name then tk else name) (snd (get_current_price e tk))),
      snd (present e j tk (if \<not> truthy name then tk else name) (snd (get_current_price e tk))))"
  by (simp add: price_and_present_def asset_name_of_def split: prod.splits)

lemma price_and_present_resolved:
  "price_and_present e j (Some m) tk name =
     (fst (get_current_price e tk)
        @ fst (present e j tk
                 (if truthy (dict_get m ''name'') then dict_get m ''name''
                  else if \<not> truthy name then tk else name)
                 (snd (get_current_price e tk))),
      snd (present e j tk
                 (if truthy (dict_get m ''name'') then dict_get m ''name''
                  else if \<not> truthy name then tk else name)
                 (snd (get_current_price e tk))))"
proof (cases "truthy (dict_get m ''name'')")
  case True
  then have "m \<noteq> []" by (auto simp: dict_get_def)
  with True show ?thesis
    by (simp add: price_and_present_def asset_name_of_def dict_item_truthy
          split: prod.splits)
next
  case False
  then show ?thesis
    by (simp add: price_and_present_def asset_name_of_def split: prod.splits)
qed

lemma run_no_input:
  "(ticker = None \<or> ticker = Some []) \<Longrightarrow> (name = None \<or> name = Some []) \<Longrightarrow>
   search_command e ticker name j = ([Echo usage_message], Exit 2)"
  by (simp add: search_command_def falsy_cli_value)

lemma run_direct:
  "t \<noteq> [] \<Longrightarrow>
   search_command e (Some t) name j =
     (fst (get_current_price e (PyStr t))
        @ fst (present e j (PyStr t) (if \<not> truthy (cli_value name) then PyStr t else cli_value name)
                 (snd (get_current_price e (PyStr t)))),
      snd (present e j (PyStr t) (if \<not> truthy (cli_value name) then PyStr t else cli_value name)
                 (snd (get_current_price e (PyStr t)))))"
  by (simp add: search_command_def price_and_present_unresolved cli_value_def)

lemma run_not_found:
  assumes "ticker = None \<or> ticker = Some []" and "n \<noteq> []"
    and "snd (lookup_ticker_by_name e (PyStr n)) = None
         \<or> (\<exists>m. snd (lookup_ticker_by_name e (PyStr n)) = Some m \<and> \<not> truthy (dict_get m ''symbol''))"
  shows "search_command e ticker (Some n) j =
           ([HttpGet YAHOO_SEARCH_URL (search_params (PyStr n)), Echo (no_results_message (Some n))],
            Exit 1)"
proof -
  have f: "\<not> truthy (cli_value ticker)" using assms(1) by (simp add: falsy_cli_value)
  have t: "truthy (cli_value (Some n))" using assms(2) by (simp add: cli_value_def)
  obtain tr r where l: "lookup_ticker_by_name e (PyStr n) = (tr, r)" by (cases "lookup_ticker_by_name e (PyStr n)")
  then have tr: "tr = [HttpGet YAHOO_SEARCH_URL (search_params (PyStr n))]"
    using lookup_trace [of e "PyStr n"] by simp
  from assms(3) l have "r = None \<or> (\<exists>m. r = Some m \<and> \<not> truthy (dict_get m ''symbol''))" by simp
  then show ?thesis
    using f t l tr by (auto simp: search_command_def cli_value_def)
qed

lemma run_resolved:
  assumes "ticker = None \<or> ticker = Some []" and "n \<noteq> []"
    and "snd (lookup_ticker_by_name e (PyStr n)) = Some m" and "truthy (dict_get m ''symbol'')"
  shows "search_command e ticker (Some n) j =
           (HttpGet YAHOO_SEARCH_URL (search_params (PyStr n))
              # fst (get_current_price e (dict_get m ''symbol''))
              @ fst (present e j (dict_get m ''symbol'') (dict_get m ''name'')
                       (snd (get_current_price e (dict_get m ''symbol'')))),
            snd (present e j (dict_get m ''symbol'') (dict_get m ''name'')
                       (snd (get_current_price e (dict_get m ''symbol'')))))
         \<and> truthy (dict_get m ''name'')"
proof -
  have f: "\<not> truthy (cli_value ticker)" using assms(1) by (simp add: falsy_cli_value)
  have t: "truthy (cli_value (Some n))" using assms(2) by (simp add: cli_value_def)
  obtain tr r where l: "lookup_ticker_by_name e (PyStr n) = (tr, r)" by (cases "lookup_ticker_by_name e (PyStr n)")
  then have tr: "tr = [HttpGet YAHOO_SEARCH_URL (search_params (PyStr n))]"
    using lookup_trace [of e "PyStr n"] by simp
  from l assms(3) have r: "r = Some m" by simp
  from assms(3) obtain q where m: "m = [(''symbol'', dict_get q ''symbol''),
              (''name'', py_or (dict_get q ''shortname'')
                           (py_or (dict_get q ''longname'') (dict_get q ''symbol''))),
              (''type'', dict_get q ''quoteType''),
              (''exchange'', dict_get q ''exchange''),
              (''score'', dict_get q ''score'')]"
    using lookup_Some_shape by blast
  have sym: "dict_get m ''symbol'' = dict_get q ''symbol''"
    by (simp add: m dict_get_def)
  have nm: "dict_get m ''name'' = py_or (dict_get q ''shortname'')
                           (py_or (dict_get q ''longname'') (dict_get q ''symbol''))"
    by (simp add: m dict_get_def)
  have tn: "truthy (dict_get m ''name'')"
    using assms(4) unfolding nm sym by (simp add: py_or_def)
  have ne: "m \<noteq> []" using m by simp
  show ?thesis
    using f t l tr r ne tn assms(4)
    by (simp add: search_command_def dict_item_truthy price_and_present_resolved
          cli_value_def)
qed

lemma price_trace_events:
  "set (fst (get_current_price e tk)) \<subseteq> {NewTicker tk, FastInfo, History1m, History1d}"
  using price_trace_cases [of e tk] by auto

lemma present_events:
  "\<exists>ev. fst (present e j tk a price) = [ev] \<and> (\<forall>t. ev \<noteq> NewTicker t)
        \<and> (\<forall>u ps. ev \<noteq> HttpGet u ps)"
  by (simp add: present_def)

lemma search_command_cases:
  "search_command e ticker name j = ([Echo usage_message], Exit 2)
   \<or> (\<exists>n. search_command e ticker name j =
          ([HttpGet YAHOO_SEARCH_URL (search_params (PyStr n)), Echo (no_results_message name)],
           Exit 1))
   \<or> (\<exists>pre tk a. (\<forall>ev \<in> set pre. \<exists>u ps. ev = HttpGet u ps) \<and>
          search_command e ticker name j =
            (pre @ fst (get_current_price e tk)
               @ fst (present e j tk a (snd (get_current_price e tk))),
             snd (present e j tk a (snd (get_current_price e tk)))))"
proof (cases "ticker = None \<or> ticker = Some []")
  case tf: True
  show ?thesis
  proof (cases "name = None \<or> name = Some []")
    case True
    with tf show ?thesis by (simp add: run_no_input)
  next
    case False
    then obtain n where n: "name = Some n" "n \<noteq> []" by (cases name) auto
    show ?thesis
    proof (cases "\<exists>m. snd (lookup_ticker_by_name e (PyStr n)) = Some m \<and> truthy (dict_get m ''symbol'')")
      case True
      then obtain m where m: "snd (lookup_ticker_by_name e (PyStr n)) = Some m"
          "truthy (dict_get m ''symbol'')" by blast
      have "search_command e ticker name j =
           ([HttpGet YAHOO_SEARCH_URL (search_params (PyStr n))]
              @ fst (get_current_price e (dict_get m ''symbol''))
              @ fst (present e j (dict_get m ''symbol'') (dict_get m ''name'')
                       (snd (get_current_price e (dict_get m ''symbol'')))),
            snd (present e j (dict_get m ''symbol'') (dict_get m ''name'')
                       (snd (get_current_price e (dict_get m ''symbol'')))))"
        using run_resolved [OF tf n(2) m] n(1) by simp
      moreover have "\<forall>ev \<in> set [HttpGet YAHOO_SEARCH_URL (search_params (PyStr n))].
                        \<exists>u ps. ev = HttpGet u ps" by simp
      ultimately show ?thesis by blast
    next
      case False
      then have "snd (lookup_ticker_by_name e (PyStr n)) = None
         \<or> (\<exists>m. snd (lookup_ticker_by_name e (PyStr n)) = Some m \<and> \<not> truthy (dict_get m ''symbol''))"
        by (cases "snd (lookup_ticker_by_name e (PyStr n))") auto
      from run_not_found [OF tf n(2) this] n(1) show ?thesis by blast
    qed
  qed
next
  case False
  then obtain t where t: "ticker = Some t" "t \<noteq> []" by (cases ticker) auto
  have "search_command e ticker name j =
     ([] @ fst (get_current_price e (PyStr t))
        @ fst (present e j (PyStr t) (if \<not> truthy (cli_value name) then PyStr t else cli_value name)
                 (snd (get_current_price e (PyStr t)))),
      snd (present e j (PyStr t) (if \<not> truthy (cli_value name) then PyStr t else cli_value name)
                 (snd (get_current_price e (PyStr t)))))"
    using run_direct [OF t(2)] t(1) by simp
  moreover have "\<forall>ev \<in> set ([] :: event list). \<exists>u ps. ev = HttpGet u ps" by simp
  ultimately show ?thesis by blast
qed

lemma fetched_run:
  assumes "NewTicker tk \<in> set (fst (search_command e ticker name j))"
  shows "\<exists>pre a. search_command e ticker name j =
            (pre @ fst (get_current_price e tk)
               @ fst (present e j tk a (snd (get_current_price e tk))),
             snd (present e j tk a (snd (get_current_price e tk))))"
proof -
  from search_command_cases [of e ticker name j]
  consider (usage) "search_command e ticker name j = ([Echo usage_message], Exit 2)"
    | (nf) n where "search_command e ticker name j =
          ([HttpGet YAHOO_SEARCH_URL (search_params (PyStr n)), Echo (no_results_message name)],
           Exit 1)"
    | (run) pre tk0 a where "\<forall>ev \<in> set pre. \<exists>u ps. ev = HttpGet u ps"
          "search_command e ticker name j =
            (pre @ fst (get_current_price e tk0)
               @ fst (present e j tk0 a (snd (get_current_price e tk0))),
             snd (present e j tk0 a (snd (get_current_price e tk0))))"
    by blast
  then show ?thesis
  proof cases
    case usage
    with assms show ?thesis by simp
  next
    case nf
    with assms show ?thesis by simp
  next
    case run
    obtain ev where ev: "fst (present e j tk0 a (snd (get_current_price e tk0))) = [ev]"
        "\<forall>t. ev \<noteq> NewTicker t"
      using present_events by blast
    from assms run(2) ev have "NewTicker tk \<in> set pre \<or> NewTicker tk \<in> set (fst (get_current_price e tk0))"
      by auto
    moreover have "NewTicker tk \<notin> set pre" using run(1) by auto
    ultimately have "NewTicker tk \<in> set (fst (get_current_price e tk0))" by blast
    then have "tk = tk0" using price_trace_events [of e tk0] by auto
    with run(2) show ?thesis by blast
  qed
qed

lemma json_never_uncaught: "snd (search_command e ticker name True) \<noteq> Uncaught"
  using search_command_cases [of e ticker name True] by (auto simp: present_json_Exit)

lemma sample_lookup_no_match:
  "snd (lookup_ticker_by_name (sample_env (Returns (sample_response no_match_body)) t) (PyStr ''Apple''))
     = None"
  by (simp add: lookup_ticker_by_name_def lookup_ticker_by_name_try_def sample_env_def
        sample_response_def no_match_body_def dict_get_def py_or_def)

lemma sample_lookup_no_symbol:
  "snd (lookup_ticker_by_name (sample_env (Returns (sample_response no_symbol_body)) t) (PyStr ''Apple''))
     = Some [(''symbol'', PyNone), (''name'', PyStr ''Apple Inc.''), (''type'', PyNone),
             (''exchange'', PyNone), (''score'', PyNone)]"
  by (simp add: lookup_ticker_by_name_def lookup_ticker_by_name_try_def sample_env_def
        sample_response_def no_symbol_body_def dict_get_def py_or_def match_of_quote_dict)

lemma sample_lookup_apple:
  "snd (lookup_ticker_by_name (sample_env (Returns (sample_response apple_body)) t) (PyStr ''Apple''))
     = Some [(''symbol'', PyStr ''AAPL''), (''name'', PyStr ''Apple Inc.''),
             (''type'', PyStr ''EQUITY''), (''exchange'', PyStr ''NMS''),
             (''score'', PyInt 31292)]"
  by (simp add: lookup_ticker_by_name_def lookup_ticker_by_name_try_def sample_env_def
        sample_response_def apple_body_def apple_quote_def dict_get_def py_or_def
        match_of_quote_dict)

lemma sample_price_priced:
  "get_current_price (sample_env r (Returns priced_handle)) tk = ([NewTicker tk, FastInfo], Some (Num 7))"
  by (simp add: get_current_price_def get_current_price_try_def sample_env_def priced_handle_def
        sample_handle_def fast_info_price_def fast_present_def float_truthy_def)

lemma sample_price_unpriced:
  "get_current_price (sample_env r (Returns unpriced_handle)) tk
     = ([NewTicker tk, FastInfo, History1m, History1d], None)"
  by (simp add: get_current_price_def get_current_price_try_def sample_env_def unpriced_handle_def
        sample_handle_def fast_info_price_def)

lemma json_aapl:
  "float_repr e p = ''150.1234'' \<Longrightarrow>
   json_dumps_indent2 e (PyDict (payload (PyStr ''AAPL'') (PyStr ''AAPL'') (Some (Num p)))) = aapl_pretty"
  by (simp add: json_dumps_indent2_def payload_def json_str_def json_escape_def json_float_def
        newline_indent_def aapl_pretty_def numeral_2_eq_2)

lemma sample_price_aapl:
  "get_current_price (sample_env r (Returns aapl_handle)) tk
     = ([NewTicker tk, FastInfo], Some (Num 150.1234))"
  by (simp add: get_current_price_def get_current_price_try_def sample_env_def aapl_handle_def
        sample_handle_def fast_info_price_def float_truthy_def)

lemma sample_run_unpriced:
  "search_command (sample_env Raises (Returns unpriced_handle)) (Some ''AAPL'') None True
     = ([NewTicker (PyStr ''AAPL''), FastInfo, History1m, History1d,
         Echo (json_dumps_indent2 (sample_env Raises (Returns unpriced_handle))
                (PyDict (payload (PyStr ''AAPL'') (PyStr ''AAPL'') None)))], Exit 0)"
  using run_direct [of "''AAPL''" "sample_env Raises (Returns unpriced_handle)" None True]
  by (simp add: cli_value_def sample_price_unpriced present_def)

text \<open>
  C6. With neither \<^verbatim>\<open>--ticker\<close> nor \<^verbatim>\<open>--name\<close> the command only echoes the
  usage line and exits with code 2: no request to the search endpoint, no price fetch.
\<close>

theorem no_input_exits_2:
  "search_command e None None json_out = ([Echo usage_message], Exit 2)"
  by (simp add: run_no_input)

theorem no_input_exits_2_witness:
  "search_command (sample_env Raises Raises) None None True = ([Echo usage_message], Exit 2)"
  using no_input_exits_2 [of "sample_env Raises Raises" True] .

text \<open>
  C10. An empty string for \<^verbatim>\<open>--ticker\<close> or \<^verbatim>\<open>--name\<close> gives the same run as
  leaving the option out. With both empty or missing the run is the usage line and
  exit code 2; with a non-empty name and an empty ticker the run is the one of the
  name alone, and it starts with the request to the search endpoint.
\<close>

theorem empty_option_is_absent:
  "search_command e (Some []) name json_out = search_command e None name json_out
   \<and> search_command e ticker (Some []) json_out = search_command e ticker None json_out
   \<and> ((ticker = None \<or> ticker = Some []) \<and> (name = None \<or> name = Some [])
        \<longrightarrow> search_command e ticker name json_out = ([Echo usage_message], Exit 2))
   \<and> (n \<noteq> [] \<longrightarrow>
         search_command e (Some []) (Some n) json_out = search_command e None (Some n) json_out
         \<and> take 1 (fst (search_command e (Some []) (Some n) json_out)) =
             [HttpGet YAHOO_SEARCH_URL (search_params (PyStr n))])"
proof -
  have a: "search_command e (Some []) name json_out = search_command e None name json_out"
    by (simp add: search_command_def cli_value_def)
  have b: "search_command e ticker (Some []) json_out = search_command e ticker None json_out"
    by (simp add: search_command_def cli_value_def price_and_present_unresolved)
  have c: "(ticker = None \<or> ticker = Some []) \<and> (name = None \<or> name = Some [])
        \<longrightarrow> search_command e ticker name json_out = ([Echo usage_message], Exit 2)"
    using run_no_input by blast
  have d: "n \<noteq> [] \<longrightarrow>
         take 1 (fst (search_command e (Some []) (Some n) json_out)) =
             [HttpGet YAHOO_SEARCH_URL (search_params (PyStr n))]"
  proof
    assume n: "n \<noteq> []"
    have tf: "Some [] = None \<or> Some [] = Some ([] :: string)" by simp
    show "take 1 (fst (search_command e (Some []) (Some n) json_out)) =
             [HttpGet YAHOO_SEARCH_URL (search_params (PyStr n))]"
    proof (cases "\<exists>m. snd (lookup_ticker_by_name e (PyStr n)) = Some m \<and> truthy (dict_get m ''symbol'')")
      case True
      then obtain m where m: "snd (lookup_ticker_by_name e (PyStr n)) = Some m"
          "truthy (dict_get m ''symbol'')" by blast
      from run_resolved [OF tf n m] show ?thesis by simp
    next
      case False
      then have "snd (lookup_ticker_by_name e (PyStr n)) = None
         \<or> (\<exists>m. snd (lookup_ticker_by_name e (PyStr n)) = Some m \<and> \<not> truthy (dict_get m ''symbol''))"
        by (cases "snd (lookup_ticker_by_name e (PyStr n))") auto
      from run_not_found [OF tf n this] show ?thesis by simp
    qed
  qed
  have a': "search_command e (Some []) (Some n) json_out = search_command e None (Some n) json_out"
    by (simp add: search_command_def cli_value_def)
  from a b c d a' show ?thesis by blast
qed

theorem empty_option_is_absent_witness:
  "search_command (sample_env Raises Raises) (Some []) (Some []) False = ([Echo usage_message], Exit 2)
   \<and> search_command (sample_env Raises Raises) (Some []) (Some ''Apple'') False
       = search_command (sample_env Raises Raises) None (Some ''Apple'') False
   \<and> take 1 (fst (search_command (sample_env Raises Raises) (Some []) (Some ''Apple'') False))
       = [HttpGet YAHOO_SEARCH_URL (search_params (PyStr ''Apple''))]"
proof -
  have n: "''Apple'' \<noteq> []" by simp
  have t: "Some [] = None \<or> Some ([] :: string) = Some []" by simp
  from n t show ?thesis
    using empty_option_is_absent [where e = "sample_env Raises Raises" and name = "Some []"
      and json_out = False and ticker = "Some []" and n = "''Apple''"]
    by blast
qed

text \<open>
  C5. A name is given, no ticker, and the resolver returns None or a match whose symbol
  is missing, null or empty: the run is the search request and the "No results" line,
  the exit code is 1, and nothing of the price fetch happens.
\<close>

theorem no_match_exits_1:
  "(ticker = None \<or> ticker = Some []) \<and> n \<noteq> []
   \<and> (snd (lookup_ticker_by_name e (PyStr n)) = None
       \<or> (\<exists>m. snd (lookup_ticker_by_name e (PyStr n)) = Some m \<and> \<not> truthy (dict_get m ''symbol'')))
   \<longrightarrow> search_command e ticker (Some n) json_out =
         ([HttpGet YAHOO_SEARCH_URL (search_params (PyStr n)), Echo (no_results_message (Some n))],
          Exit 1)
       \<and> (\<forall>tk. NewTicker tk \<notin> set (fst (search_command e ticker (Some n) json_out)))
       \<and> FastInfo \<notin> set (fst (search_command e ticker (Some n) json_out))
       \<and> History1m \<notin> set (fst (search_command e ticker (Some n) json_out))
       \<and> History1d \<notin> set (fst (search_command e ticker (Some n) json_out))"
proof
  assume h: "(ticker = None \<or> ticker = Some []) \<and> n \<noteq> []
   \<and> (snd (lookup_ticker_by_name e (PyStr n)) = None
       \<or> (\<exists>m. snd (lookup_ticker_by_name e (PyStr n)) = Some m \<and> \<not> truthy (dict_get m ''symbol'')))"
  then have "search_command e ticker (Some n) json_out =
         ([HttpGet YAHOO_SEARCH_URL (search_params (PyStr n)), Echo (no_results_message (Some n))],
          Exit 1)"
    using run_not_found [of ticker n e json_out] by blast
  then show "search_command e ticker (Some n) json_out =
         ([HttpGet YAHOO_SEARCH_URL (search_params (PyStr n)), Echo (no_results_message (Some n))],
          Exit 1)
       \<and> (\<forall>tk. NewTicker tk \<notin> set (fst (search_command e ticker (Some n) json_out)))
       \<and> FastInfo \<notin> set (fst (search_command e ticker (Some n) json_out))
       \<and> History1m \<notin> set (fst (search_command e ticker (Some n) json_out))
       \<and> History1d \<notin> set (fst (search_command e ticker (Some n) json_out))"
    by simp
qed

theorem no_match_exits_1_witness:
  "search_command (sample_env (Returns (sample_response no_match_body)) (Returns priced_handle))
       None (Some ''Apple'') True
     = ([HttpGet YAHOO_SEARCH_URL (search_params (PyStr ''Apple'')),
         Echo (no_results_message (Some ''Apple''))], Exit 1)
   \<and> search_command (sample_env (Returns (sample_response no_symbol_body)) (Returns priced_handle))
       (Some []) (Some ''Apple'') False
     = ([HttpGet YAHOO_SEARCH_URL (search_params (PyStr ''Apple'')),
         Echo (no_results_message (Some ''Apple''))], Exit 1)"
proof -
  have n: "''Apple'' \<noteq> []" by simp
  have s: "\<not> truthy (dict_get [(''symbol'', PyNone), (''name'', PyStr ''Apple Inc.''),
             (''type'', PyNone), (''exchange'', PyNone), (''score'', PyNone)] ''symbol'')"
    by (simp add: dict_get_def)
  have a: "search_command (sample_env (Returns (sample_response no_match_body)) (Returns priced_handle))
       None (Some ''Apple'') True
     = ([HttpGet YAHOO_SEARCH_URL (search_params (PyStr ''Apple'')),
         Echo (no_results_message (Some ''Apple''))], Exit 1)"
    using no_match_exits_1 [where e = "sample_env (Returns (sample_response no_match_body)) (Returns priced_handle)"
        and ticker = None and n = "''Apple''" and json_out = True]
      n sample_lookup_no_match [of "Returns priced_handle"]
    by blast
  have b: "search_command (sample_env (Returns (sample_response no_symbol_body)) (Returns priced_handle))
       (Some []) (Some ''Apple'') False
     = ([HttpGet YAHOO_SEARCH_URL (search_params (PyStr ''Apple'')),
         Echo (no_results_message (Some ''Apple''))], Exit 1)"
    using no_match_exits_1 [where e = "sample_env (Returns (sample_response no_symbol_body)) (Returns priced_handle)"
        and ticker = "Some []" and n = "''Apple''" and json_out = False]
      n s sample_lookup_no_symbol [of "Returns priced_handle"]
    by blast
  from a b show ?thesis by blast
qed

text \<open>
  C8. The name that is presented: the name of the resolver's match when the resolver
  ran and succeeded; else the name that was supplied; else the ticker. The last two
  conjuncts say what \<open>present\<close> does with the name it is given: it is the
  \<^verbatim>\<open>name\<close> field of the JSON payload, or the first cell of the table row, and
  the run ends with exit code 0 unless the console raises on the row.
\<close>

theorem display_name_precedence:
  "((ticker = None \<or> ticker = Some []) \<and> n \<noteq> []
      \<and> snd (lookup_ticker_by_name e (PyStr n)) = Some m \<and> truthy (dict_get m ''symbol'')
    \<longrightarrow> search_command e ticker (Some n) json_out =
          (HttpGet YAHOO_SEARCH_URL (search_params (PyStr n))
             # fst (get_current_price e (dict_get m ''symbol''))
             @ fst (present e json_out (dict_get m ''symbol'') (dict_get m ''name'')
                      (snd (get_current_price e (dict_get m ''symbol'')))),
           snd (present e json_out (dict_get m ''symbol'') (dict_get m ''name'')
                      (snd (get_current_price e (dict_get m ''symbol''))))))
   \<and> (t \<noteq> [] \<and> n \<noteq> []
    \<longrightarrow> search_command e (Some t) (Some n) json_out =
          (fst (get_current_price e (PyStr t))
             @ fst (present e json_out (PyStr t) (PyStr n) (snd (get_current_price e (PyStr t)))),
           snd (present e json_out (PyStr t) (PyStr n) (snd (get_current_price e (PyStr t))))))
   \<and> (t \<noteq> [] \<and> (name = None \<or> name = Some [])
    \<longrightarrow> search_command e (Some t) name json_out =
          (fst (get_current_price e (PyStr t))
             @ fst (present e json_out (PyStr t) (PyStr t) (snd (get_current_price e (PyStr t)))),
           snd (present e json_out (PyStr t) (PyStr t) (snd (get_current_price e (PyStr t))))))
   \<and> fst (present e json_out tk shown price) =
        [if json_out then
           Echo (json_dumps_indent2 e
                  (PyDict [(''ticker'', tk), (''name'', shown),
                           (''price'', case price of None \<Rightarrow> PyNone | Some p \<Rightarrow> PyFloat p),
                           (''success'', PyBool (price \<noteq> None))]))
         else PrintTable shown (py_or tk (PyStr ''-''))
                (case price of None \<Rightarrow> ''[red]N/A[/red]'' | Some p \<Rightarrow> format_4f e p)]
   \<and> snd (present e json_out tk shown price) =
        (if json_out then Exit 0
         else case console_print e shown (py_or tk (PyStr ''-''))
                     (case price of None \<Rightarrow> ''[red]N/A[/red]'' | Some p \<Rightarrow> format_4f e p) of
                Raises \<Rightarrow> Uncaught
              | Returns done \<Rightarrow> Exit 0)"
proof -
  have a: "(ticker = None \<or> ticker = Some []) \<and> n \<noteq> []
      \<and> snd (lookup_ticker_by_name e (PyStr n)) = Some m \<and> truthy (dict_get m ''symbol'')
    \<longrightarrow> search_command e ticker (Some n) json_out =
          (HttpGet YAHOO_SEARCH_URL (search_params (PyStr n))
             # fst (get_current_price e (dict_get m ''symbol''))
             @ fst (present e json_out (dict_get m ''symbol'') (dict_get m ''name'')
                      (snd (get_current_price e (dict_get m ''symbol'')))),
           snd (present e json_out (dict_get m ''symbol'') (dict_get m ''name'')
                      (snd (get_current_price e (dict_get m ''symbol'')))))"
    using run_resolved [of ticker n e m json_out] by blast
  have b: "t \<noteq> [] \<and> n \<noteq> []
    \<longrightarrow> search_command e (Some t) (Some n) json_out =
          (fst (get_current_price e (PyStr t))
             @ fst (present e json_out (PyStr t) (PyStr n) (snd (get_current_price e (PyStr t)))),
           snd (present e json_out (PyStr t) (PyStr n) (snd (get_current_price e (PyStr t)))))"
    using run_direct [of t e "Some n" json_out] by (simp add: cli_value_def)
  have c: "t \<noteq> [] \<and> (name = None \<or> name = Some [])
    \<longrightarrow> search_command e (Some t) name json_out =
          (fst (get_current_price e (PyStr t))
             @ fst (present e json_out (PyStr t) (PyStr t) (snd (get_current_price e (PyStr t)))),
           snd (present e json_out (PyStr t) (PyStr t) (snd (get_current_price e (PyStr t)))))"
    using run_direct [of t e name json_out] falsy_cli_value [of name] by auto
  have d: "fst (present e json_out tk shown price) =
        [if json_out then
           Echo (json_dumps_indent2 e
                  (PyDict [(''ticker'', tk), (''name'', shown),
                           (''price'', case price of None \<Rightarrow> PyNone | Some p \<Rightarrow> PyFloat p),
                           (''success'', PyBool (price \<noteq> None))]))
         else PrintTable shown (py_or tk (PyStr ''-''))
                (case price of None \<Rightarrow> ''[red]N/A[/red]'' | Some p \<Rightarrow> format_4f e p)]"
    by (simp add: present_def payload_def)
  have f: "snd (present e json_out tk shown price) =
        (if json_out then Exit 0
         else case console_print e shown (py_or tk (PyStr ''-''))
                     (case price of None \<Rightarrow> ''[red]N/A[/red]'' | Some p \<Rightarrow> format_4f e p) of
                Raises \<Rightarrow> Uncaught
              | Returns done \<Rightarrow> Exit 0)"
    by (simp add: present_def)
  from a b c d f show ?thesis by blast
qed

theorem display_name_precedence_witness:
  "search_command (sample_env (Returns (sample_response apple_body)) (Returns priced_handle))
       None (Some ''Apple'') False
     = ([HttpGet YAHOO_SEARCH_URL (search_params (PyStr ''Apple'')), NewTicker (PyStr ''AAPL''),
         FastInfo, PrintTable (PyStr ''Apple Inc.'') (PyStr ''AAPL'') ''150.1234''], Exit 0)
   \<and> search_command (sample_env Raises (Returns priced_handle)) (Some ''AAPL'') (Some ''Apple'') False
     = ([NewTicker (PyStr ''AAPL''), FastInfo,
         PrintTable (PyStr ''Apple'') (PyStr ''AAPL'') ''150.1234''], Exit 0)
   \<and> search_command (sample_env Raises (Returns priced_handle)) (Some ''AAPL'') None False
     = ([NewTicker (PyStr ''AAPL''), FastInfo,
         PrintTable (PyStr ''AAPL'') (PyStr ''AAPL'') ''150.1234''], Exit 0)"
proof -
  let ?m = "[(''symbol'', PyStr ''AAPL''), (''name'', PyStr ''Apple Inc.''),
             (''type'', PyStr ''EQUITY''), (''exchange'', PyStr ''NMS''),
             (''score'', PyInt 31292)]"
  let ?ea = "sample_env (Returns (sample_response apple_body)) (Returns priced_handle)"
  let ?ed = "sample_env Raises (Returns priced_handle)"
  have n: "''Apple'' \<noteq> []" and t: "''AAPL'' \<noteq> []" by simp_all
  have sy: "truthy (dict_get ?m ''symbol'')" by (simp add: dict_get_def)
  note w1 = display_name_precedence [where e = ?ea and ticker = None and n = "''Apple''"
      and m = ?m and json_out = False and t = "''AAPL''" and name = None]
  note w2 = display_name_precedence [where e = ?ed and ticker = None and n = "''Apple''"
      and m = ?m and json_out = False and t = "''AAPL''" and name = None]
  have "search_command ?ea None (Some ''Apple'') False =
          (HttpGet YAHOO_SEARCH_URL (search_params (PyStr ''Apple''))
             # fst (get_current_price ?ea (dict_get ?m ''symbol''))
             @ fst (present ?ea False (dict_get ?m ''symbol'') (dict_get ?m ''name'')
                      (snd (get_current_price ?ea (dict_get ?m ''symbol'')))),
           snd (present ?ea False (dict_get ?m ''symbol'') (dict_get ?m ''name'')
                      (snd (get_current_price ?ea (dict_get ?m ''symbol'')))))"
    using w1 n sy sample_lookup_apple [of "Returns priced_handle"] by blast
  then have a: "search_command ?ea None (Some ''Apple'') False
     = ([HttpGet YAHOO_SEARCH_URL (search_params (PyStr ''Apple'')), NewTicker (PyStr ''AAPL''),
         FastInfo, PrintTable (PyStr ''Apple Inc.'') (PyStr ''AAPL'') ''150.1234''], Exit 0)"
    by (simp add: sample_price_priced present_def dict_get_def py_or_def)
       (simp add: sample_env_def sample_console_def)
  have "search_command ?ed (Some ''AAPL'') (Some ''Apple'') False =
          (fst (get_current_price ?ed (PyStr ''AAPL''))
             @ fst (present ?ed False (PyStr ''AAPL'') (PyStr ''Apple'')
                      (snd (get_current_price ?ed (PyStr ''AAPL'')))),
           snd (present ?ed False (PyStr ''AAPL'') (PyStr ''Apple'')
                      (snd (get_current_price ?ed (PyStr ''AAPL'')))))"
    using w2 n t by blast
  then have b: "search_command ?ed (Some ''AAPL'') (Some ''Apple'') False
     = ([NewTicker (PyStr ''AAPL''), FastInfo,
         PrintTable (PyStr ''Apple'') (PyStr ''AAPL'') ''150.1234''], Exit 0)"
    by (simp add: sample_price_priced present_def py_or_def)
       (simp add: sample_env_def sample_console_def)
  have "search_command ?ed (Some ''AAPL'') None False =
          (fst (get_current_price ?ed (PyStr ''AAPL''))
             @ fst (present ?ed False (PyStr ''AAPL'') (PyStr ''AAPL'')
                      (snd (get_current_price ?ed (PyStr ''AAPL'')))),
           snd (present ?ed False (PyStr ''AAPL'') (PyStr ''AAPL'')
                      (snd (get_current_price ?ed (PyStr ''AAPL'')))))"
    using w2 t by blast
  then have c: "search_command ?ed (Some ''AAPL'') None False
     = ([NewTicker (PyStr ''AAPL''), FastInfo,
         PrintTable (PyStr ''AAPL'') (PyStr ''AAPL'') ''150.1234''], Exit 0)"
    by (simp add: sample_price_priced present_def py_or_def)
       (simp add: sample_env_def sample_console_def)
  from a b c show ?thesis by blast
qed

text \<open>
  C9. With a non-empty ticker and a non-empty name the run is the price fetch for the
  ticker as given, followed by the presentation under the supplied name; no request
  to the search endpoint is made. The run ends with exit code 0 unless the console
  raises on the row.
\<close>

theorem both_given_skips_resolver:
  "t \<noteq> [] \<and> n \<noteq> []
   \<longrightarrow> search_command e (Some t) (Some n) json_out =
         (fst (get_current_price e (PyStr t))
            @ [if json_out then
                 Echo (json_dumps_indent2 e
                        (PyDict (payload (PyStr t) (PyStr n) (snd (get_current_price e (PyStr t))))))
               else PrintTable (PyStr n) (PyStr t)
                      (case snd (get_current_price e (PyStr t)) of
                         None \<Rightarrow> ''[red]N/A[/red]'' | Some p \<Rightarrow> format_4f e p)],
          if json_out then Exit 0
          else case console_print e (PyStr n) (PyStr t)
                      (case snd (get_current_price e (PyStr t)) of
                         None \<Rightarrow> ''[red]N/A[/red]'' | Some p \<Rightarrow> format_4f e p) of
                 Raises \<Rightarrow> Uncaught
               | Returns done \<Rightarrow> Exit 0)
       \<and> (\<forall>url params. HttpGet url params \<notin> set (fst (search_command e (Some t) (Some n) json_out)))"
proof
  assume h: "t \<noteq> [] \<and> n \<noteq> []"
  then have run: "search_command e (Some t) (Some n) json_out =
         (fst (get_current_price e (PyStr t))
            @ [if json_out then
                 Echo (json_dumps_indent2 e
                        (PyDict (payload (PyStr t) (PyStr n) (snd (get_current_price e (PyStr t))))))
               else PrintTable (PyStr n) (PyStr t)
                      (case snd (get_current_price e (PyStr t)) of
                         None \<Rightarrow> ''[red]N/A[/red]'' | Some p \<Rightarrow> format_4f e p)],
          if json_out then Exit 0
          else case console_print e (PyStr n) (PyStr t)
                      (case snd (get_current_price e (PyStr t)) of
                         None \<Rightarrow> ''[red]N/A[/red]'' | Some p \<Rightarrow> format_4f e p) of
                 Raises \<Rightarrow> Uncaught
               | Returns done \<Rightarrow> Exit 0)"
    using run_direct [of t e "Some n" json_out]
    by (simp add: cli_value_def present_def py_or_def)
  have "\<forall>url params. HttpGet url params \<notin> set (fst (get_current_price e (PyStr t)))"
    using price_trace_events [of e "PyStr t"] by auto
  then have "\<forall>url params. HttpGet url params \<notin> set (fst (search_command e (Some t) (Some n) json_out))"
    unfolding run by simp
  with run show "search_command e (Some t) (Some n) json_out =
         (fst (get_current_price e (PyStr t))
            @ [if json_out then
                 Echo (json_dumps_indent2 e
                        (PyDict (payload (PyStr t) (PyStr n) (snd (get_current_price e (PyStr t))))))
               else PrintTable (PyStr n) (PyStr t)
                      (case snd (get_current_price e (PyStr t)) of
                         None \<Rightarrow> ''[red]N/A[/red]'' | Some p \<Rightarrow> format_4f e p)],
          if json_out then Exit 0
          else case console_print e (PyStr n) (PyStr t)
                      (case snd (get_current_price e (PyStr t)) of
                         None \<Rightarrow> ''[red]N/A[/red]'' | Some p \<Rightarrow> format_4f e p) of
                 Raises \<Rightarrow> Uncaught
               | Returns done \<Rightarrow> Exit 0)
       \<and> (\<forall>url params. HttpGet url params \<notin> set (fst (search_command e (Some t) (Some n) json_out)))"
    by blast
qed

theorem both_given_skips_resolver_witness:
  "search_command (sample_env (Returns (sample_response apple_body)) (Returns unpriced_handle))
       (Some ''MSFT'') (Some ''Apple'') False
     = ([NewTicker (PyStr ''MSFT''), FastInfo, History1m, History1d,
         PrintTable (PyStr ''Apple'') (PyStr ''MSFT'') ''[red]N/A[/red]''], Exit 0)"
proof -
  let ?e = "sample_env (Returns (sample_response apple_body)) (Returns unpriced_handle)"
  have "''MSFT'' \<noteq> [] \<and> ''Apple'' \<noteq> []" by simp
  with both_given_skips_resolver [of "''MSFT''" "''Apple''" ?e False]
  have "search_command ?e (Some ''MSFT'') (Some ''Apple'') False =
         (fst (get_current_price ?e (PyStr ''MSFT''))
            @ [if False then
                 Echo (json_dumps_indent2 ?e
                        (PyDict (payload (PyStr ''MSFT'') (PyStr ''Apple'')
                                   (snd (get_current_price ?e (PyStr ''MSFT''))))))
               else PrintTable (PyStr ''Apple'') (PyStr ''MSFT'')
                      (case snd (get_current_price ?e (PyStr ''MSFT'')) of
                         None \<Rightarrow> ''[red]N/A[/red]'' | Some p \<Rightarrow> format_4f ?e p)],
          if False then Exit 0
          else case console_print ?e (PyStr ''Apple'') (PyStr ''MSFT'')
                      (case snd (get_current_price ?e (PyStr ''MSFT'')) of
                         None \<Rightarrow> ''[red]N/A[/red]'' | Some p \<Rightarrow> format_4f ?e p) of
                 Raises \<Rightarrow> Uncaught
               | Returns done \<Rightarrow> Exit 0)"
    by blast
  then show ?thesis
    by (simp add: sample_price_unpriced) (simp add: sample_env_def sample_console_def)
qed

text \<open>
  What the JSON branch keeps: in every payload the program builds, \<^verbatim>\<open>price\<close>
  is non-null exactly when \<^verbatim>\<open>success\<close> is true, and a JSON run that fetched a
  price exits with code 0 and ends with the payload of the fetch result.
\<close>

lemma payload_price_iff_success:
  "(dict_get (payload tk shown price) ''price'' \<noteq> PyNone
      \<longleftrightarrow> dict_get (payload tk shown price) ''success'' = PyBool True)
   \<and> (dict_get (payload tk shown price) ''price'' = PyNone
      \<longleftrightarrow> dict_get (payload tk shown price) ''success'' = PyBool False)"
  by (cases price) (simp_all add: payload_def dict_get_def)

lemma json_fetched_run_exits_0:
  assumes "NewTicker tk \<in> set (fst (search_command e ticker name True))"
  shows "snd (search_command e ticker name True) = Exit 0
         \<and> (\<exists>a. last (fst (search_command e ticker name True)) =
                Echo (json_dumps_indent2 e
                       (PyDict (payload tk a (snd (get_current_price e tk))))))"
proof -
  from assms obtain pre a where run: "search_command e ticker name True =
            (pre @ fst (get_current_price e tk)
               @ fst (present e True tk a (snd (get_current_price e tk))),
             snd (present e True tk a (snd (get_current_price e tk))))"
    using fetched_run by blast
  show ?thesis unfolding run by (auto simp: present_def)
qed


text \<open>
  C3 (as amended). With \<^verbatim>\<open>--ticker AAPL --json\<close> and a fetched price whose
  \<^verbatim>\<open>repr\<close> is 150.1234, the command echoes, after the price fetch, the JSON
  object with the four fields in the order ticker, name, price, success, encoded with
  \<^verbatim>\<open>indent=2\<close>: one field per line, indented by two spaces; and exits with 0.
\<close>

theorem json_output_is_indented:
  "get_current_price e (PyStr ''AAPL'') = (tr, Some (Num p)) \<and> float_repr e p = ''150.1234''
   \<longrightarrow> search_command e (Some ''AAPL'') None True = (tr @ [Echo aapl_pretty], Exit 0)"
proof
  assume h: "get_current_price e (PyStr ''AAPL'') = (tr, Some (Num p)) \<and> float_repr e p = ''150.1234''"
  have "search_command e (Some ''AAPL'') None True =
     (fst (get_current_price e (PyStr ''AAPL''))
        @ fst (present e True (PyStr ''AAPL'') (PyStr ''AAPL'')
                 (snd (get_current_price e (PyStr ''AAPL'')))),
      Exit 0)"
    using run_direct [of "''AAPL''" e None True] by (simp add: cli_value_def present_json_Exit)
  with h show "search_command e (Some ''AAPL'') None True = (tr @ [Echo aapl_pretty], Exit 0)"
    by (simp add: present_def json_aapl)
qed

theorem json_output_is_indented_witness:
  "search_command (sample_env Raises (Returns aapl_handle)) (Some ''AAPL'') None True
     = ([NewTicker (PyStr ''AAPL''), FastInfo, Echo aapl_pretty], Exit 0)"
  using json_output_is_indented [of "sample_env Raises (Returns aapl_handle)"
      "[NewTicker (PyStr ''AAPL''), FastInfo]" "150.1234"]
    sample_price_aapl [of Raises "PyStr ''AAPL''"]
  by (simp add: sample_env_def)

text \<open>
  C3 as stated fails: the single-line text is not what the run echoes.
\<close>

theorem compact_json_counterexample:
  "\<not> (get_current_price (sample_env Raises (Returns aapl_handle)) (PyStr ''AAPL'')
         = ([NewTicker (PyStr ''AAPL''), FastInfo], Some (Num 150.1234))
       \<and> float_repr (sample_env Raises (Returns aapl_handle)) 150.1234 = ''150.1234''
      \<longrightarrow> Echo aapl_compact
            \<in> set (fst (search_command (sample_env Raises (Returns aapl_handle))
                          (Some ''AAPL'') None True)))"
proof -
  have r: "float_repr (sample_env Raises (Returns aapl_handle)) 150.1234 = ''150.1234''"
    by (simp add: sample_env_def)
  have "search_command (sample_env Raises (Returns aapl_handle)) (Some ''AAPL'') None True =
     (fst (get_current_price (sample_env Raises (Returns aapl_handle)) (PyStr ''AAPL''))
        @ fst (present (sample_env Raises (Returns aapl_handle)) True (PyStr ''AAPL'') (PyStr ''AAPL'')
                 (snd (get_current_price (sample_env Raises (Returns aapl_handle)) (PyStr ''AAPL'')))),
      Exit 0)"
    using run_direct [of "''AAPL''" "sample_env Raises (Returns aapl_handle)" None True]
    by (simp add: cli_value_def present_json_Exit)
  moreover note json_aapl [OF r] sample_price_aapl [of Raises "PyStr ''AAPL''"]
  ultimately have run: "fst (search_command (sample_env Raises (Returns aapl_handle)) (Some ''AAPL'') None True)
      = [NewTicker (PyStr ''AAPL''), FastInfo, Echo aapl_pretty]"
    by (simp add: present_def)
  have ne: "aapl_pretty \<noteq> aapl_compact"
    by (simp add: aapl_pretty_def aapl_compact_def)
  show ?thesis
    unfolding run using ne r sample_price_aapl [of Raises "PyStr ''AAPL''"] by simp
qed

end
